theory Spec2Isabelle
  imports Complex_Main
begin

section \<open>Errors\<close>

text \<open>
  Every exception the modelled functions can raise is a value; a function that can raise
  returns \<open>error + 'a\<close> with \<open>Inl\<close> for the exception.
\<close>

datatype error =
    AssertionError string
  | NotImplementedError
  | ValueError
  | IndexError
  | KeyError
  | TypeError
  | ZeroDivisionError
  | UnicodeDecodeError

section \<open>parsing.py: the operator tokenizer\<close>

text \<open>\<open>YELLOW\<close>, as the list the interpreter compares the arguments of \<open>RG\<close> with.\<close>

definition YELLOW :: "string list" where
  "YELLOW = [''1'', ''0.952941'', ''0.658824'']"

text \<open>\<open>PATH_OPS\<close>, in the order of the source (\<open>i\<close> stands twice there).\<close>

definition PATH_OPS :: "string list" where
  "PATH_OPS =
    [''w'', ''J'', ''j'', ''M'', ''d'', ''ri'', ''i'', ''gs'', ''q'', ''Q'', ''cm'', ''m'',
     ''l'', ''c'', ''v'', ''y'', ''h'', ''re'', ''S'', ''s'', ''f'', ''F'', ''f*'', ''B'',
     ''B*'', ''b'', ''b*'', ''n'', ''W'', ''W*'', ''BT'', ''ET'', ''Tc'', ''Tw'', ''Tz'',
     ''TL'', ''Tf'', ''Tr'', ''Ts'', ''i'', ''Td'', ''TD'', ''Tm'', ''T*'', ''Tj'', ''TJ'',
     [CHR 0x27], [CHR 0x22], ''d0'', ''d1'', ''CS'', ''cs'', ''SC'', ''SCN'', ''sc'',
     ''scn'', ''G'', ''g'', ''RG'', ''rg'', ''K'', ''k'', ''sh'', ''BI'', ''ID'', ''EI'',
     ''Do'', ''MP'', ''DP'', ''BMC'', ''BDC'', ''EMC'', ''BX'', ''EX'']"

type_synonym operation = "string \<times> string list"

text \<open>
  The loop of \<open>tokenize_graphics\<close> over the tokens of
  \<open>raw_graphics_content.decode("utf-8").split()\<close>, with \<open>arg_stack\<close> as the
  accumulator: an operator token yields \<open>(token, arg_stack.copy())\<close> and clears the
  stack, any other token is appended to it.
\<close>

fun tokenize_loop :: "string list \<Rightarrow> string list \<Rightarrow> operation list" where
  "tokenize_loop arg_stack [] = []"
| "tokenize_loop arg_stack (token # rest) =
     (if token \<in> set PATH_OPS
      then (token, arg_stack) # tokenize_loop [] rest
      else tokenize_loop (arg_stack @ [token]) rest)"

definition tokenize_graphics :: "string list \<Rightarrow> operation list" where
  "tokenize_graphics tokens = tokenize_loop [] tokens"

section \<open>parsing.py: the stroke interpreter\<close>

type_synonym point = "real \<times> real"

datatype CAP_STYLE = cap_round | cap_flat | cap_square

datatype JOIN_STYLE = join_round | join_mitre | join_bevel

definition CAP_STYLES :: "int \<rightharpoonup> CAP_STYLE" where
  "CAP_STYLES = [1 \<mapsto> cap_round, 2 \<mapsto> cap_flat, 3 \<mapsto> cap_square]"

definition JOIN_STYLES :: "int \<rightharpoonup> JOIN_STYLE" where
  "JOIN_STYLES = [1 \<mapsto> join_round, 2 \<mapsto> join_mitre, 3 \<mapsto> join_bevel]"

text \<open>
  A shapely polygon: the coordinates of its exterior ring and of its interior rings.
  The empty polygon has no coordinates.
\<close>

record polygon =
  exterior :: "point list"
  interiors :: "point list list"

text \<open>
  What \<open>unary_union\<close> can return: a geometry with its \<open>geom_type\<close>.
\<close>

datatype geometry =
    PolygonGeom polygon
  | MultiPolygonGeom "polygon list"
  | OtherGeom string

text \<open>
  The operations of the libraries the code calls, as parameters of the model:
  \<^item> \<open>decode_split raw\<close> is \<open>raw.decode("utf-8").split()\<close>, which can raise;
  \<^item> \<open>py_float s\<close> is \<open>float(s)\<close>, \<open>None\<close> where it raises ValueError;
  \<^item> \<open>buffer pts d cap join\<close> is \<open>LineString(pts).buffer(d, cap_style, join_style)\<close>;
  \<^item> \<open>unary_union\<close> is \<open>shapely.ops.unary_union\<close>;
  \<^item> \<open>intersection_area polys b\<close> is \<open>MultiPolygon(polys).intersection(b).area\<close>
    for the word box \<open>b\<close>, given by the four arguments of \<open>box\<close>.
  Coordinates are real numbers; the rounding of floating-point arithmetic is not modelled.
\<close>

record env =
  decode_split :: "string \<Rightarrow> error + string list"
  py_float :: "string \<Rightarrow> real option"
  buffer :: "point list \<Rightarrow> real \<Rightarrow> CAP_STYLE \<Rightarrow> JOIN_STYLE \<Rightarrow> polygon"
  unary_union :: "polygon list \<Rightarrow> geometry"
  intersection_area :: "polygon list \<Rightarrow> real \<times> real \<times> real \<times> real \<Rightarrow> real"

text \<open>
  Python's \<open>int(s)\<close> on a token of ASCII text (a token holds no whitespace): an
  optional sign, then decimal digits, single underscores allowed between digits.
\<close>

definition digit_val :: "char \<Rightarrow> nat option" where
  "digit_val c =
     map_of
       [(CHR ''0'', 0), (CHR ''1'', 1), (CHR ''2'', 2), (CHR ''3'', 3), (CHR ''4'', 4),
        (CHR ''5'', 5), (CHR ''6'', 6), (CHR ''7'', 7), (CHR ''8'', 8), (CHR ''9'', 9)] c"

fun digits_val :: "nat \<Rightarrow> string \<Rightarrow> nat option" where
  "digits_val acc [] = Some acc"
| "digits_val acc [c] =
     (case digit_val c of None \<Rightarrow> None | Some v \<Rightarrow> Some (10 * acc + v))"
| "digits_val acc (c # d # ds) =
     (if c = CHR ''_''
      then (case digit_val d of None \<Rightarrow> None | Some v \<Rightarrow> digits_val (10 * acc + v) ds)
      else (case digit_val c of None \<Rightarrow> None | Some v \<Rightarrow> digits_val (10 * acc + v) (d # ds)))"

definition unsigned_val :: "string \<Rightarrow> nat option" where
  "unsigned_val s =
     (case s of
        [] \<Rightarrow> None
      | d # ds \<Rightarrow> (case digit_val d of None \<Rightarrow> None | Some v \<Rightarrow> digits_val v ds))"

definition py_int :: "string \<Rightarrow> error + int" where
  "py_int s =
     (let (neg, body) =
        (case s of
           [] \<Rightarrow> (False, [])
         | c # cs \<Rightarrow>
             if c = CHR ''-'' then (True, cs)
             else if c = CHR ''+'' then (False, cs)
             else (False, s))
      in case unsigned_val body of
           None \<Rightarrow> Inl ValueError
         | Some n \<Rightarrow> Inr (if neg then - int n else int n))"

text \<open>\<open>args[i]\<close> and \<open>float(args[i])\<close>.\<close>

definition arg :: "string list \<Rightarrow> nat \<Rightarrow> error + string" where
  "arg args i = (if i < length args then Inr (args ! i) else Inl IndexError)"

definition float_arg :: "env \<Rightarrow> string list \<Rightarrow> nat \<Rightarrow> error + real" where
  "float_arg E args i =
     (case arg args i of
        Inl e \<Rightarrow> Inl e
      | Inr s \<Rightarrow> (case py_float E s of None \<Rightarrow> Inl ValueError | Some r \<Rightarrow> Inr r))"

definition int_arg :: "string list \<Rightarrow> nat \<Rightarrow> error + int" where
  "int_arg args i = (case arg args i of Inl e \<Rightarrow> Inl e | Inr s \<Rightarrow> py_int s)"

text \<open>
  The local variables of \<open>highlighter_lines\<close>. \<open>current_line\<close> is \<open>None\<close> or a
  list whose first element may be \<open>None\<close> (armed, no \<open>m\<close> seen yet).
\<close>

record interp_state =
  current_line :: "point option list option"
  width :: "real option"
  cap_style :: "CAP_STYLE option"
  join_style :: "JOIN_STYLE option"

definition initial_state :: interp_state where
  "initial_state =
     \<lparr>current_line = Some [], width = None, cap_style = None, join_style = None\<rparr>"

definition cleared_state :: interp_state where
  "cleared_state =
     \<lparr>current_line = None, width = None, cap_style = None, join_style = None\<rparr>"

text \<open>
  The branch \<open>op == "S"\<close>: the four assertions in their order, then
  \<open>LineString(current_line)\<close>, which raises on a first element that is still
  \<open>None\<close>, then the buffer by half the width.
\<close>

definition stroke :: "env \<Rightarrow> interp_state \<Rightarrow> point option list \<Rightarrow> error + polygon" where
  "stroke E s line =
     (case width s of
        None \<Rightarrow> Inl (AssertionError ''Expected to see a width for the stroke before stroke end.'')
      | Some w \<Rightarrow>
     (case cap_style s of
        None \<Rightarrow> Inl (AssertionError ''Expected to see a cap style before stroke end.'')
      | Some cap \<Rightarrow>
     (case join_style s of
        None \<Rightarrow> Inl (AssertionError ''Expected to see a join style before stroke end.'')
      | Some join \<Rightarrow>
          if \<not> 1 < length line then Inl (AssertionError ''Invalid line, not enough points.'')
          else if None \<in> set line then Inl TypeError
          else Inr (buffer E (map the line) (w / 2) cap join))))"

text \<open>
  One iteration of the loop while \<open>current_line\<close> is truthy (a non-empty list
  \<open>line\<close>): the new state and the shapes yielded.
\<close>

definition armed_step ::
  "env \<Rightarrow> interp_state \<Rightarrow> point option list \<Rightarrow> operation \<Rightarrow> error + interp_state \<times> polygon list"
where
  "armed_step E s line oper =
     (let (opr, args) = oper in
      if opr = ''m'' then
        (case float_arg E args 0 of Inl e \<Rightarrow> Inl e | Inr x \<Rightarrow>
         (case float_arg E args 1 of Inl e \<Rightarrow> Inl e | Inr y \<Rightarrow>
            Inr (s\<lparr>current_line := Some (line[0 := Some (x, y)])\<rparr>, [])))
      else if opr = ''j'' then
        (case int_arg args 0 of Inl e \<Rightarrow> Inl e | Inr i \<Rightarrow>
         (case JOIN_STYLES i of None \<Rightarrow> Inl KeyError
          | Some js \<Rightarrow> Inr (s\<lparr>join_style := Some js\<rparr>, [])))
      else if opr = ''J'' then
        (case int_arg args 0 of Inl e \<Rightarrow> Inl e | Inr i \<Rightarrow>
         (case CAP_STYLES i of None \<Rightarrow> Inl KeyError
          | Some cs \<Rightarrow> Inr (s\<lparr>cap_style := Some cs\<rparr>, [])))
      else if opr = ''w'' then
        (case float_arg E args 0 of Inl e \<Rightarrow> Inl e | Inr w \<Rightarrow>
            Inr (s\<lparr>width := Some w\<rparr>, []))
      else if opr = ''l'' then
        (case float_arg E args 0 of Inl e \<Rightarrow> Inl e | Inr x \<Rightarrow>
         (case float_arg E args 1 of Inl e \<Rightarrow> Inl e | Inr y \<Rightarrow>
            Inr (s\<lparr>current_line := Some (line @ [Some (x, y)])\<rparr>, [])))
      else if opr = ''S'' then
        (case stroke E s line of Inl e \<Rightarrow> Inl e | Inr shape \<Rightarrow> Inr (cleared_state, [shape]))
      else if opr = ''cm'' then
        (if args \<noteq> [''1'', ''0'', ''0'', ''1'', ''0'', ''0'']
         then Inl NotImplementedError else Inr (s, []))
      else Inr (s, []))"

text \<open>
  One iteration of the loop of \<open>highlighter_lines\<close>: the yellow \<open>RG\<close> arms,
  a truthy \<open>current_line\<close> interprets the operator, anything else is skipped.
\<close>

definition interp_step ::
  "env \<Rightarrow> interp_state \<Rightarrow> operation \<Rightarrow> error + interp_state \<times> polygon list"
where
  "interp_step E s oper =
     (if oper = (''RG'', YELLOW) then Inr (s\<lparr>current_line := Some [None]\<rparr>, [])
      else (case current_line s of
              Some (p # ps) \<Rightarrow> armed_step E s (p # ps) oper
            | _ \<Rightarrow> Inr (s, [])))"

fun interp_loop :: "env \<Rightarrow> interp_state \<Rightarrow> operation list \<Rightarrow> error + polygon list" where
  "interp_loop E s [] = Inr []"
| "interp_loop E s (oper # rest) =
     (case interp_step E s oper of
        Inl e \<Rightarrow> Inl e
      | Inr (s', shapes) \<Rightarrow>
          (case interp_loop E s' rest of
             Inl e \<Rightarrow> Inl e
           | Inr later \<Rightarrow> Inr (shapes @ later)))"

text \<open>The interpreter on an operator sequence, and \<open>highlighter_lines\<close> on a raw stream.\<close>

definition run_interpreter :: "env \<Rightarrow> operation list \<Rightarrow> error + polygon list" where
  "run_interpreter E ops = interp_loop E initial_state ops"

definition highlighter_lines :: "env \<Rightarrow> string \<Rightarrow> error + polygon list" where
  "highlighter_lines E raw_graphics_content =
     (case decode_split E raw_graphics_content of
        Inl e \<Rightarrow> Inl e
      | Inr tokens \<Rightarrow> run_interpreter E (tokenize_graphics tokens))"

section \<open>The geometry the code asks shapely for\<close>

text \<open>
  \<open>Polygon(ring).area\<close>: the absolute value of the signed area of the ring closed on
  itself (the shoelace sum over consecutive coordinates).
\<close>

fun shoelace :: "point list \<Rightarrow> real" where
  "shoelace (p # q # ps) = (fst p * snd q - fst q * snd p) + shoelace (q # ps)"
| "shoelace _ = 0"

definition close_ring :: "point list \<Rightarrow> point list" where
  "close_ring ring = (if ring \<noteq> [] \<and> hd ring \<noteq> last ring then ring @ [hd ring] else ring)"

definition ring_area :: "point list \<Rightarrow> real" where
  "ring_area ring = \<bar>shoelace (close_ring ring)\<bar> / 2"

text \<open>
  Where a point lies with respect to an areal geometry. shapely's \<open>contains\<close> is the
  DE-9IM predicate: \<open>g.contains(p)\<close> for a point \<open>p\<close> holds when \<open>p\<close> lies in the
  interior of \<open>g\<close>; a point of the boundary of \<open>g\<close> is not contained. The location
  is computed ring by ring: on an edge of the ring, or inside it by the parity of the
  edges that a ray from the point towards greater x crosses.
\<close>

datatype location = Interior | Boundary | Exterior

fun edges :: "point list \<Rightarrow> (point \<times> point) list" where
  "edges (p # q # ps) = (p, q) # edges (q # ps)"
| "edges _ = []"

definition on_segment :: "point \<Rightarrow> point \<times> point \<Rightarrow> bool" where
  "on_segment p e =
     (let (px, py) = p; ((ax, ay), (bx, by)) = e in
      (bx - ax) * (py - ay) - (by - ay) * (px - ax) = 0
      \<and> min ax bx \<le> px \<and> px \<le> max ax bx
      \<and> min ay by \<le> py \<and> py \<le> max ay by)"

definition crosses_ray :: "point \<Rightarrow> point \<times> point \<Rightarrow> bool" where
  "crosses_ray p e =
     (let (px, py) = p; ((ax, ay), (bx, by)) = e in
      (py < ay) \<noteq> (py < by) \<and> px < ax + (py - ay) * (bx - ax) / (by - ay))"

definition locate_ring :: "point \<Rightarrow> point list \<Rightarrow> location" where
  "locate_ring p ring =
     (let es = edges (close_ring ring) in
      if list_ex (on_segment p) es then Boundary
      else if odd (length (filter (crosses_ray p) es)) then Interior
      else Exterior)"

definition locate_polygon :: "point \<Rightarrow> polygon \<Rightarrow> location" where
  "locate_polygon p poly =
     (case locate_ring p (exterior poly) of
        Exterior \<Rightarrow> Exterior
      | Boundary \<Rightarrow> Boundary
      | Interior \<Rightarrow>
          if list_ex (\<lambda>hole. locate_ring p hole = Boundary) (interiors poly) then Boundary
          else if list_ex (\<lambda>hole. locate_ring p hole = Interior) (interiors poly) then Exterior
          else Interior)"

text \<open>The location in \<open>MultiPolygon(polys)\<close>, whose members do not overlap.\<close>

definition locate :: "point \<Rightarrow> polygon list \<Rightarrow> location" where
  "locate p polys =
     (if list_ex (\<lambda>poly. locate_polygon p poly = Interior) polys then Interior
      else if list_ex (\<lambda>poly. locate_polygon p poly = Boundary) polys then Boundary
      else Exterior)"

definition contains_point :: "polygon list \<Rightarrow> point \<Rightarrow> bool" where
  "contains_point polys p = (locate p polys = Interior)"

text \<open>
  A word box \<open>box(x0, y0, x1, y1)\<close>, kept by its four arguments, with the centroid
  and the area of that rectangle and the set of its points.
\<close>

type_synonym rect = "real \<times> real \<times> real \<times> real"

definition centroid :: "rect \<Rightarrow> point" where
  "centroid b = (let (x0, y0, x1, y1) = b in ((x0 + x1) / 2, (y0 + y1) / 2))"

definition box_area :: "rect \<Rightarrow> real" where
  "box_area b = (let (x0, y0, x1, y1) = b in \<bar>x1 - x0\<bar> * \<bar>y1 - y0\<bar>)"

definition box_points :: "rect \<Rightarrow> point set" where
  "box_points b =
     (let (x0, y0, x1, y1) = b in
      {(x, y). min x0 x1 \<le> x \<and> x \<le> max x0 x1 \<and> min y0 y1 \<le> y \<and> y \<le> max y0 y1})"

text \<open>The polygon \<open>box(x0, y0, x1, y1)\<close> of shapely, with its ring counter-clockwise.\<close>

definition box :: "rect \<Rightarrow> polygon" where
  "box b =
     (let (x0, y0, x1, y1) = b in
      \<lparr>exterior = [(x1, y0), (x1, y1), (x0, y1), (x0, y0), (x1, y0)], interiors = []\<rparr>)"

section \<open>extract.py: matching words and classifying highlights\<close>

datatype WordSelectionMethod = CENTROID | AREA_RATIO

text \<open>\<open>WordSelectionMethod[name]\<close>: the member of that name, or KeyError.\<close>

definition WordSelectionMethod_getitem :: "string \<Rightarrow> error + WordSelectionMethod" where
  "WordSelectionMethod_getitem name =
     (if name = ''CENTROID'' then Inr CENTROID
      else if name = ''AREA_RATIO'' then Inr AREA_RATIO
      else Inl KeyError)"

text \<open>
  The \<open>method\<close> argument of \<open>word_is_highlighted\<close> is any Python value: a member of
  the enumeration or something else.
\<close>

datatype method_value = Member WordSelectionMethod | NotAMember

definition DEFAULT_AREA_RATIO :: real where
  "DEFAULT_AREA_RATIO = 0.5"

definition word_is_highlighted ::
  "env \<Rightarrow> method_value \<Rightarrow> polygon list \<Rightarrow> rect \<Rightarrow> error + bool"
where
  "word_is_highlighted E method highlight_poly word_box =
     (if method = Member CENTROID then Inr (contains_point highlight_poly (centroid word_box))
      else if method = Member AREA_RATIO then
        (if box_area word_box = 0 then Inl ZeroDivisionError
         else Inr (DEFAULT_AREA_RATIO
                     < intersection_area E highlight_poly word_box / box_area word_box))
      else Inl ValueError)"

datatype HighlightType = TEXTUAL | SELECTION

definition classify_highlight :: "polygon \<Rightarrow> real \<Rightarrow> HighlightType" where
  "classify_highlight highlight_poly clipping_area_threshold =
     (if length (interiors highlight_poly) = 1 then
        (if clipping_area_threshold < ring_area (interiors highlight_poly ! 0)
         then SELECTION else TEXTUAL)
      else TEXTUAL)"

fun classify_highlights :: "polygon list \<Rightarrow> real \<Rightarrow> polygon list \<times> polygon list" where
  "classify_highlights [] clipping_area_threshold = ([], [])"
| "classify_highlights (poly # polys) clipping_area_threshold =
     (let (text_highlights, selection_highlights) =
            classify_highlights polys clipping_area_threshold
      in case classify_highlight poly clipping_area_threshold of
           TEXTUAL \<Rightarrow> (poly # text_highlights, selection_highlights)
         | SELECTION \<Rightarrow> (text_highlights, poly # selection_highlights))"

section \<open>extract.py: merging highlighted words into runs\<close>

text \<open>
  \<open>itertools.groupby\<close>: the maximal groups of consecutive elements with equal keys,
  each with its key.
\<close>

function groupby :: "('a \<Rightarrow> 'k) \<Rightarrow> 'a list \<Rightarrow> ('k \<times> 'a list) list" where
  "groupby key [] = []"
| "groupby key (x # xs) =
     (key x, x # takeWhile (\<lambda>y. key y = key x) xs)
       # groupby key (dropWhile (\<lambda>y. key y = key x) xs)"
  by pat_completeness auto
termination
  by (relation "measure (\<lambda>(key, xs). length xs)")
     (auto simp: length_dropWhile_le less_Suc_eq_le)

text \<open>\<open>" ".join(run)\<close>.\<close>

fun join_words :: "string list \<Rightarrow> string" where
  "join_words [] = []"
| "join_words [w] = w"
| "join_words (w # v # ws) = w @ '' '' @ join_words (v # ws)"

text \<open>
  The three comprehensions of \<open>extract_text_highlights\<close>, on the word boxes paired
  with the value of \<open>is_highlighted\<close> for each: \<open>runs\<close>, \<open>marked_skips\<close> and
  \<open>merged_runs\<close>, then the joined strings the function returns.
\<close>

definition runs :: "(bool \<times> string \<times> rect) list \<Rightarrow> (bool \<times> string list) list" where
  "runs tagged =
     map (\<lambda>(is_selected, ws). (is_selected, map (\<lambda>t. fst (snd t)) ws)) (groupby fst tagged)"

definition marked_skips :: "int \<Rightarrow> (bool \<times> string list) list \<Rightarrow> (bool \<times> string list) list" where
  "marked_skips max_skip_len rs =
     map (\<lambda>(is_selected, run). (is_selected \<or> int (length run) \<le> max_skip_len, run)) rs"

definition merged_runs :: "(bool \<times> string list) list \<Rightarrow> string list list" where
  "merged_runs ms =
     map (\<lambda>(is_selected, runs_to_merge). concat (map snd runs_to_merge))
       (filter fst (groupby fst ms))"

definition merge_tagged :: "int \<Rightarrow> (bool \<times> string \<times> rect) list \<Rightarrow> string list list" where
  "merge_tagged max_skip_len tagged = merged_runs (marked_skips max_skip_len (runs tagged))"

definition highlighted_text :: "int \<Rightarrow> (bool \<times> string \<times> rect) list \<Rightarrow> string list" where
  "highlighted_text max_skip_len tagged = map join_words (merge_tagged max_skip_len tagged)"

text \<open>
  The calls of the key function \<open>is_highlighted\<close>, in the order of the words; the
  first one that raises ends the function.
\<close>

fun tag_words ::
  "(rect \<Rightarrow> error + bool) \<Rightarrow> (string \<times> rect) list \<Rightarrow> error + (bool \<times> string \<times> rect) list"
where
  "tag_words is_highlighted [] = Inr []"
| "tag_words is_highlighted (t # ts) =
     (case is_highlighted (snd t) of
        Inl e \<Rightarrow> Inl e
      | Inr h \<Rightarrow>
          (case tag_words is_highlighted ts of
             Inl e \<Rightarrow> Inl e
           | Inr tagged \<Rightarrow> Inr ((h, t) # tagged)))"

section \<open>extract.py: the pages of a document\<close>

text \<open>
  What the code reads of a page: its number, its crop box, for each content reference
  \<open>doc.isStream(xref)\<close> and \<open>doc.xrefStream(xref)\<close>, and the records of
  \<open>page.getText("words")\<close> without the three fields the code discards.
\<close>

record page =
  number :: nat
  CropBox :: rect
  contents :: "(bool \<times> string) list"
  words :: "(real \<times> real \<times> real \<times> real \<times> string) list"

definition extract_text_highlights ::
  "env \<Rightarrow> polygon list \<Rightarrow> page \<Rightarrow> method_value \<Rightarrow> int \<Rightarrow> error + string list"
where
  "extract_text_highlights E text_highlights pg word_selection_method max_skip_len =
     (let word_boxes = map (\<lambda>(x0, y0, x1, y1, word). (word, (x0, y0, x1, y1))) (words pg);
          is_highlighted = word_is_highlighted E word_selection_method text_highlights
      in case tag_words is_highlighted word_boxes of
           Inl e \<Rightarrow> Inl e
         | Inr tagged \<Rightarrow> Inr (highlighted_text max_skip_len tagged))"

text \<open>
  \<open>coordinate_transformer(page)\<close>: \<open>ops.transform\<close> applies \<open>to_fitz_coord\<close> to
  every coordinate of the exterior and of the interior rings.
\<close>

definition to_fitz_coord :: "page \<Rightarrow> point \<Rightarrow> point" where
  "to_fitz_coord pg p = (let (x0, y0, x1, y1) = CropBox pg in (fst p, y1 - snd p))"

definition transform :: "(point \<Rightarrow> point) \<Rightarrow> polygon \<Rightarrow> polygon" where
  "transform f poly =
     \<lparr>exterior = map f (exterior poly), interiors = map (map f) (interiors poly)\<rparr>"

definition coordinate_transformer :: "page \<Rightarrow> polygon \<Rightarrow> polygon" where
  "coordinate_transformer pg = transform (to_fitz_coord pg)"

text \<open>\<open>content_contains_highlight\<close>: the bytes of the pattern occur in the content.\<close>

fun starts_with :: "'a list \<Rightarrow> 'a list \<Rightarrow> bool" where
  "starts_with [] ys = True"
| "starts_with (x # xs) [] = False"
| "starts_with (x # xs) (y # ys) = (x = y \<and> starts_with xs ys)"

fun occurs_in :: "'a list \<Rightarrow> 'a list \<Rightarrow> bool" where
  "occurs_in pat [] = (pat = [])"
| "occurs_in pat (c # cs) = (starts_with pat (c # cs) \<or> occurs_in pat cs)"

definition content_contains_highlight :: "string \<Rightarrow> bool" where
  "content_contains_highlight content = occurs_in (join_words YELLOW @ '' RG'') content"

fun collect_lines :: "env \<Rightarrow> (bool \<times> string) list \<Rightarrow> error + polygon list" where
  "collect_lines E [] = Inr []"
| "collect_lines E ((is_stream, content) # rest) =
     (if \<not> is_stream then collect_lines E rest
      else if content_contains_highlight content then
        (case highlighter_lines E content of
           Inl e \<Rightarrow> Inl e
         | Inr polys \<Rightarrow>
             (case collect_lines E rest of
                Inl e \<Rightarrow> Inl e
              | Inr later \<Rightarrow> Inr (polys @ later)))
      else collect_lines E rest)"

definition extract_highlight_lines :: "env \<Rightarrow> page \<Rightarrow> error + polygon list" where
  "extract_highlight_lines E pg =
     (case collect_lines E (contents pg) of
        Inl e \<Rightarrow> Inl e
      | Inr polys \<Rightarrow> Inr (map (coordinate_transformer pg) polys))"

definition normalize_polys :: "geometry \<Rightarrow> error + polygon list" where
  "normalize_polys g =
     (case g of
        MultiPolygonGeom geoms \<Rightarrow> Inr geoms
      | PolygonGeom poly \<Rightarrow> Inr [poly]
      | OtherGeom geom_type \<Rightarrow> Inl ValueError)"

definition merge_highlight_lines :: "env \<Rightarrow> polygon list \<Rightarrow> error + polygon list" where
  "merge_highlight_lines E lines = normalize_polys (unary_union E lines)"

text \<open>
  A clip: the call \<open>page.getPixmap\<close> of \<open>extract_clips\<close>, by the page number, the
  bounds of the exterior ring (which the renderer rounds) and the zoom.
\<close>

datatype pixmap = Pixmap nat rect real

definition bounds :: "point list \<Rightarrow> rect" where
  "bounds pts =
     (case pts of
        [] \<Rightarrow> (0, 0, 0, 0)
      | p # ps \<Rightarrow>
          (fold min (map fst ps) (fst p), fold min (map snd ps) (snd p),
           fold max (map fst ps) (fst p), fold max (map snd ps) (snd p)))"

definition extract_clips :: "polygon list \<Rightarrow> page \<Rightarrow> real \<Rightarrow> pixmap list" where
  "extract_clips selection_polys pg clip_zoom =
     map (\<lambda>selection_poly. Pixmap (number pg) (bounds (exterior selection_poly)) clip_zoom)
       selection_polys"

text \<open>
  \<open>d[k].extend(vs)\<close> on a \<open>defaultdict(list)\<close>.
\<close>

definition extend_at :: "(nat \<rightharpoonup> 'a list) \<Rightarrow> nat \<Rightarrow> 'a list \<Rightarrow> (nat \<rightharpoonup> 'a list)" where
  "extend_at d k vs = d(k \<mapsto> (case d k of None \<Rightarrow> [] | Some old \<Rightarrow> old) @ vs)"

type_synonym results = "(nat \<rightharpoonup> string list) \<times> (nat \<rightharpoonup> pixmap list)"

text \<open>
  The body of the loop of \<open>extract_highlights\<close> for one page, without the debug
  rendering (\<open>debug_render\<close> false), on the two dictionaries built so far.
\<close>

definition process_page ::
  "env \<Rightarrow> int \<Rightarrow> string \<Rightarrow> real \<Rightarrow> real \<Rightarrow> results \<Rightarrow> page \<Rightarrow> error + results"
where
  "process_page E max_skip_len word_selection_method clip_area_threshold clip_zoom acc pg =
     (let (page_text_highlights, page_clips) = acc in
      case extract_highlight_lines E pg of
        Inl e \<Rightarrow> Inl e
      | Inr highlight_lines \<Rightarrow>
          if highlight_lines = [] then Inr acc
          else
            (case merge_highlight_lines E highlight_lines of
               Inl e \<Rightarrow> Inl e
             | Inr highlight_polys \<Rightarrow>
                 (let (text_highlight_polys, selection_highlight_polys) =
                        classify_highlights highlight_polys clip_area_threshold;
                      page_clips' =
                        (if selection_highlight_polys \<noteq> []
                         then extend_at page_clips (number pg + 1)
                                (extract_clips selection_highlight_polys pg clip_zoom)
                         else page_clips)
                  in if text_highlight_polys \<noteq> [] then
                       (case WordSelectionMethod_getitem word_selection_method of
                          Inl e \<Rightarrow> Inl e
                        | Inr m \<Rightarrow>
                            (case extract_text_highlights E text_highlight_polys pg
                                    (Member m) max_skip_len of
                               Inl e \<Rightarrow> Inl e
                             | Inr text_highlights \<Rightarrow>
                                 Inr (extend_at page_text_highlights (number pg + 1)
                                        text_highlights, page_clips')))
                     else Inr (page_text_highlights, page_clips'))))"

fun process_pages ::
  "env \<Rightarrow> int \<Rightarrow> string \<Rightarrow> real \<Rightarrow> real \<Rightarrow> results \<Rightarrow> page list \<Rightarrow> error + results"
where
  "process_pages E max_skip_len word_selection_method clip_area_threshold clip_zoom acc [] =
     Inr acc"
| "process_pages E max_skip_len word_selection_method clip_area_threshold clip_zoom acc
     (pg # pgs) =
     (case process_page E max_skip_len word_selection_method clip_area_threshold clip_zoom
             acc pg of
        Inl e \<Rightarrow> Inl e
      | Inr acc' \<Rightarrow>
          process_pages E max_skip_len word_selection_method clip_area_threshold clip_zoom
            acc' pgs)"

definition extract_highlights ::
  "env \<Rightarrow> page list \<Rightarrow> int \<Rightarrow> string \<Rightarrow> real \<Rightarrow> real \<Rightarrow> error + results"
where
  "extract_highlights E doc max_skip_len word_selection_method clip_area_threshold clip_zoom =
     process_pages E max_skip_len word_selection_method clip_area_threshold clip_zoom
       (Map.empty, Map.empty) doc"

section \<open>Notions used to state the properties\<close>

text \<open>
  The crop-box height in the words of the specification: the top y coordinate of the
  crop box minus its bottom y coordinate.
\<close>

definition page_height :: "page \<Rightarrow> real" where
  "page_height pg = (let (x0, y0, x1, y1) = CropBox pg in y1 - y0)"

text \<open>
  A page has a textual highlight when its lines are extracted and merged without an error
  and one of the merged polygons is classified \<open>TEXTUAL\<close>: the condition
  \<open>if text_highlight_polys\<close> of \<open>extract_highlights\<close>.
\<close>

definition has_textual_highlight :: "env \<Rightarrow> real \<Rightarrow> page \<Rightarrow> bool" where
  "has_textual_highlight E clip_area_threshold pg =
     (case extract_highlight_lines E pg of
        Inl e \<Rightarrow> False
      | Inr highlight_lines \<Rightarrow>
          highlight_lines \<noteq> [] \<and>
          (case merge_highlight_lines E highlight_lines of
             Inl e \<Rightarrow> False
           | Inr highlight_polys \<Rightarrow>
               fst (classify_highlights highlight_polys clip_area_threshold) \<noteq> []))"

section \<open>An environment for the examples\<close>

text \<open>
  The library operations on the inputs of the examples below, where they agree with
  Python and shapely: splitting ASCII content at whitespace, \<open>float\<close> of an integer
  literal, the buffer of a horizontal segment with flat caps (the rectangle around it),
  and the union of polygons that do not meet (the polygons themselves). The examples use
  the centroid policy only, so no intersection is taken.
\<close>

definition is_space :: "char \<Rightarrow> bool" where
  "is_space c =
     (c \<in> set [CHR 0x09, CHR 0x0A, CHR 0x0B, CHR 0x0C, CHR 0x0D,
               CHR 0x1C, CHR 0x1D, CHR 0x1E, CHR 0x1F, CHR 0x20])"

fun split_loop :: "string \<Rightarrow> string \<Rightarrow> string list" where
  "split_loop token [] = (if token = [] then [] else [token])"
| "split_loop token (c # cs) =
     (if is_space c then (if token = [] then split_loop [] cs else token # split_loop [] cs)
      else split_loop (token @ [c]) cs)"

definition ascii_split :: "string \<Rightarrow> error + string list" where
  "ascii_split raw =
     (if list_all (\<lambda>c. (of_char c :: nat) < 128) raw then Inr (split_loop [] raw)
      else Inl UnicodeDecodeError)"

definition integer_float :: "string \<Rightarrow> real option" where
  "integer_float s = (case py_int s of Inl e \<Rightarrow> None | Inr i \<Rightarrow> Some (real_of_int i))"

definition flat_buffer :: "point list \<Rightarrow> real \<Rightarrow> CAP_STYLE \<Rightarrow> JOIN_STYLE \<Rightarrow> polygon" where
  "flat_buffer pts d cap join =
     (case pts of
        [(xa, ya), (xb, yb)] \<Rightarrow>
          if ya = yb \<and> xa < xb \<and> 0 < d \<and> cap = cap_flat
          then box (xa, ya - d, xb, ya + d)
          else \<lparr>exterior = [], interiors = []\<rparr>
      | _ \<Rightarrow> \<lparr>exterior = [], interiors = []\<rparr>)"

definition disjoint_union :: "polygon list \<Rightarrow> geometry" where
  "disjoint_union polys =
     (case polys of
        [] \<Rightarrow> OtherGeom ''GeometryCollection''
      | [poly] \<Rightarrow> PolygonGeom poly
      | _ \<Rightarrow> MultiPolygonGeom polys)"

definition example_env :: env where
  "example_env =
     \<lparr>decode_split = ascii_split, py_float = integer_float, buffer = flat_buffer,
      unary_union = disjoint_union, intersection_area = (\<lambda>polys b. 0)\<rparr>"

text \<open>
  A page whose single content stream draws one yellow stroke of width 10 from (0, 95) to
  (20, 95), above the words \<open>a\<close> and \<open>b\<close> of four words in a line, and the same
  page with a stroke in another colour.
\<close>

definition yellow_page :: page where
  "yellow_page =
     \<lparr>number = 0, CropBox = (0, 0, 100, 100),
      contents = [(True, ''q 1 0.952941 0.658824 RG 10 w 2 J 1 j 0 95 m 20 95 l S Q'')],
      words = [(0, 2, 10, 8, ''a''), (10, 2, 20, 8, ''b''), (20, 2, 30, 8, ''c''),
               (30, 2, 40, 8, ''d'')]\<rparr>"

definition plain_page :: page where
  "plain_page =
     \<lparr>number = 0, CropBox = (0, 0, 100, 100),
      contents = [(True, ''q 0 0 1 RG 10 w 2 J 1 j 0 95 m 20 95 l S Q'')],
      words = [(0, 2, 10, 8, ''a''), (10, 2, 20, 8, ''b''), (20, 2, 30, 8, ''c''),
               (30, 2, 40, 8, ''d'')]\<rparr>"

section \<open>The tokenizer yields one record for each operator\<close>

lemma tokenize_loop_literals:
  "\<forall>t\<in>set args. t \<notin> set PATH_OPS \<Longrightarrow>
   tokenize_loop st (args @ rest) = tokenize_loop (st @ args) rest"
  by (induction args arbitrary: st) auto

lemma tokenize_loop_operators:
  "map fst (tokenize_loop st tokens) = filter (\<lambda>t. t \<in> set PATH_OPS) tokens"
  by (induction tokens arbitrary: st) auto

text \<open>
  C7. The operators of the records are exactly the tokens of \<open>PATH_OPS\<close>, one record
  for each occurrence and in their order, so a token outside \<open>PATH_OPS\<close> is never an
  operator. The record of an operator carries the literal tokens that stand before it
  since the previous operator, in order, and tokenizing goes on behind it with an empty
  stack. Literal tokens that no operator follows yield no record.
\<close>

theorem tokenizer_records:
  "map fst (tokenize_graphics tokens) = filter (\<lambda>t. t \<in> set PATH_OPS) tokens
   \<and> ((\<forall>t\<in>set args. t \<notin> set PATH_OPS) \<and> opr \<in> set PATH_OPS \<longrightarrow>
        tokenize_graphics (args @ opr # rest) = (opr, args) # tokenize_graphics rest)
   \<and> ((\<forall>t\<in>set args. t \<notin> set PATH_OPS) \<longrightarrow> tokenize_graphics args = [])"
proof (intro conjI impI)
  show "map fst (tokenize_graphics tokens) = filter (\<lambda>t. t \<in> set PATH_OPS) tokens"
    by (simp add: tokenize_graphics_def tokenize_loop_operators)
next
  assume h: "(\<forall>t\<in>set args. t \<notin> set PATH_OPS) \<and> opr \<in> set PATH_OPS"
  then have "tokenize_loop [] (args @ opr # rest) = tokenize_loop ([] @ args) (opr # rest)"
    using tokenize_loop_literals by blast
  with h show "tokenize_graphics (args @ opr # rest) = (opr, args) # tokenize_graphics rest"
    by (simp add: tokenize_graphics_def)
next
  assume h: "\<forall>t\<in>set args. t \<notin> set PATH_OPS"
  then have "tokenize_loop [] (args @ []) = tokenize_loop ([] @ args) []"
    using tokenize_loop_literals by blast
  then show "tokenize_graphics args = []"
    by (simp add: tokenize_graphics_def)
qed

theorem tokenizer_records_witness:
  "set YELLOW \<inter> set PATH_OPS = {} \<and> ''RG'' \<in> set PATH_OPS
   \<and> map fst (tokenize_graphics (YELLOW @ ''RG'' # [''10'', ''w'', ''7''])) = [''RG'', ''w'']
   \<and> tokenize_graphics (YELLOW @ ''RG'' # [''10'', ''w'', ''7''])
        = [(''RG'', YELLOW), (''w'', [''10''])]
   \<and> tokenize_graphics YELLOW = []"
  using tokenizer_records
          [of "YELLOW @ ''RG'' # [''10'', ''w'', ''7'']" YELLOW "''RG''" "[''10'', ''w'', ''7'']"]
  by (simp add: YELLOW_def PATH_OPS_def tokenize_graphics_def)

section \<open>Merging runs of highlighted words\<close>

lemma groupby_block:
  assumes "A \<noteq> []" and "\<forall>a\<in>set A. key a = k" and "rest = [] \<or> key (hd rest) \<noteq> k"
  shows "groupby key (A @ rest) = (k, A) # groupby key rest"
proof -
  from assms(1) obtain a A' where A: "A = a # A'" by (cases A) auto
  with assms(2) have ka: "key a = k" and kA': "\<forall>x\<in>set A'. key x = k" by auto
  have tw: "takeWhile (\<lambda>y. key y = k) (A' @ rest) = A'"
  proof (cases rest)
    case Nil
    with kA' show ?thesis by simp
  next
    case (Cons r rs)
    with assms(3) have "key r \<noteq> k" by simp
    with kA' Cons show ?thesis by simp
  qed
  have dw: "dropWhile (\<lambda>y. key y = k) (A' @ rest) = rest"
  proof (cases rest)
    case Nil
    with kA' show ?thesis by simp
  next
    case (Cons r rs)
    with assms(3) have "key r \<noteq> k" by simp
    with kA' Cons show ?thesis by simp
  qed
  show ?thesis using A ka tw dw by simp
qed

lemma runs_one:
  assumes "A \<noteq> []"
  shows "runs (map (Pair h) A) = [(h, map fst A)]"
proof -
  have "groupby fst (map (Pair h) A @ []) = (h, map (Pair h) A) # groupby fst []"
    using assms by (intro groupby_block) auto
  then show ?thesis by (simp add: runs_def comp_def)
qed

lemma runs_two:
  assumes "A \<noteq> []" "G \<noteq> []"
  shows "runs (map (Pair h) A @ map (Pair (\<not> h)) G) = [(h, map fst A), (\<not> h, map fst G)]"
proof -
  have 1: "groupby fst (map (Pair (\<not> h)) G @ []) = (\<not> h, map (Pair (\<not> h)) G) # groupby fst []"
    using assms by (intro groupby_block) auto
  have 2: "groupby fst (map (Pair h) A @ map (Pair (\<not> h)) G)
           = (h, map (Pair h) A) # groupby fst (map (Pair (\<not> h)) G)"
    using assms by (intro groupby_block) (auto simp: hd_map)
  show ?thesis using 1 2 by (simp add: runs_def comp_def)
qed

lemma runs_three:
  assumes "A \<noteq> []" "G \<noteq> []" "B \<noteq> []"
  shows "runs (map (Pair True) A @ map (Pair False) G @ map (Pair True) B)
         = [(True, map fst A), (False, map fst G), (True, map fst B)]"
proof -
  have 1: "groupby fst (map (Pair True) B @ []) = (True, map (Pair True) B) # groupby fst []"
    using assms by (intro groupby_block) auto
  have 2: "groupby fst (map (Pair False) G @ map (Pair True) B)
           = (False, map (Pair False) G) # groupby fst (map (Pair True) B)"
    using assms by (intro groupby_block) (auto simp: hd_map)
  have 3: "groupby fst (map (Pair True) A @ map (Pair False) G @ map (Pair True) B)
           = (True, map (Pair True) A) # groupby fst (map (Pair False) G @ map (Pair True) B)"
    using assms by (intro groupby_block) (auto simp: hd_map hd_append)
  show ?thesis using 1 2 3 by (simp add: runs_def comp_def)
qed

lemma gap_bridged:
  assumes "A \<noteq> []" "B \<noteq> []" "int (length G) \<le> n"
  shows "merge_tagged n (map (Pair True) A @ map (Pair False) G @ map (Pair True) B)
         = [map fst (A @ G @ B)]"
proof (cases "G = []")
  case True
  have "runs (map (Pair True) (A @ B)) = [(True, map fst (A @ B))]"
    using assms by (intro runs_one) auto
  with True show ?thesis by (simp add: merge_tagged_def marked_skips_def merged_runs_def)
next
  case False
  with assms show ?thesis
    by (simp add: runs_three merge_tagged_def marked_skips_def merged_runs_def)
qed

lemma gap_not_bridged:
  assumes "A \<noteq> []" "B \<noteq> []" "G \<noteq> []" "n < int (length G)"
  shows "merge_tagged n (map (Pair True) A @ map (Pair False) G @ map (Pair True) B)
         = [map fst A, map fst B]"
  using assms by (simp add: runs_three merge_tagged_def marked_skips_def merged_runs_def)

text \<open>
  C1. On seven words tagged T, T, F, F, F, T, T the merger with \<open>max_skip_len = 3\<close>
  returns one run, the seven words in their order joined by spaces; with
  \<open>max_skip_len = 2\<close> it returns two runs, the words 1 and 2 and the words 6 and 7,
  and the words 3 to 5 are in neither. In general a group of unhighlighted words between
  two highlighted runs is merged with them when its length is at most \<open>max_skip_len\<close>,
  the length \<open>max_skip_len\<close> itself included, and separates them when it is longer.
\<close>

theorem run_merging_bounded_skip:
  "highlighted_text 3
     [(True, w1, b1), (True, w2, b2), (False, w3, b3), (False, w4, b4), (False, w5, b5),
      (True, w6, b6), (True, w7, b7)]
     = [join_words [w1, w2, w3, w4, w5, w6, w7]]
   \<and> merge_tagged 2
     [(True, w1, b1), (True, w2, b2), (False, w3, b3), (False, w4, b4), (False, w5, b5),
      (True, w6, b6), (True, w7, b7)]
     = [[w1, w2], [w6, w7]]
   \<and> highlighted_text 2
     [(True, w1, b1), (True, w2, b2), (False, w3, b3), (False, w4, b4), (False, w5, b5),
      (True, w6, b6), (True, w7, b7)]
     = [join_words [w1, w2], join_words [w6, w7]]
   \<and> (A \<noteq> [] \<and> B \<noteq> [] \<and> int (length G) = max_skip_len \<longrightarrow>
        highlighted_text max_skip_len
          (map (Pair True) A @ map (Pair False) G @ map (Pair True) B)
        = [join_words (map fst (A @ G @ B))])
   \<and> (A \<noteq> [] \<and> B \<noteq> [] \<and> int (length G) < max_skip_len \<longrightarrow>
        highlighted_text max_skip_len
          (map (Pair True) A @ map (Pair False) G @ map (Pair True) B)
        = [join_words (map fst (A @ G @ B))])
   \<and> (A \<noteq> [] \<and> B \<noteq> [] \<and> G \<noteq> [] \<and> max_skip_len < int (length G) \<longrightarrow>
        highlighted_text max_skip_len
          (map (Pair True) A @ map (Pair False) G @ map (Pair True) B)
        = [join_words (map fst A), join_words (map fst B)])"
proof (intro conjI impI)
  show "highlighted_text 3
     [(True, w1, b1), (True, w2, b2), (False, w3, b3), (False, w4, b4), (False, w5, b5),
      (True, w6, b6), (True, w7, b7)]
     = [join_words [w1, w2, w3, w4, w5, w6, w7]]"
    by (simp add: highlighted_text_def runs_def merge_tagged_def marked_skips_def
          merged_runs_def)
next
  show m2: "merge_tagged 2
     [(True, w1, b1), (True, w2, b2), (False, w3, b3), (False, w4, b4), (False, w5, b5),
      (True, w6, b6), (True, w7, b7)]
     = [[w1, w2], [w6, w7]]"
    by (simp add: runs_def merge_tagged_def marked_skips_def merged_runs_def)
  show "highlighted_text 2
     [(True, w1, b1), (True, w2, b2), (False, w3, b3), (False, w4, b4), (False, w5, b5),
      (True, w6, b6), (True, w7, b7)]
     = [join_words [w1, w2], join_words [w6, w7]]"
    unfolding highlighted_text_def m2 by simp
next
  assume "A \<noteq> [] \<and> B \<noteq> [] \<and> int (length G) = max_skip_len"
  then show "highlighted_text max_skip_len
          (map (Pair True) A @ map (Pair False) G @ map (Pair True) B)
        = [join_words (map fst (A @ G @ B))]"
    unfolding highlighted_text_def by (subst gap_bridged) auto
next
  assume "A \<noteq> [] \<and> B \<noteq> [] \<and> int (length G) < max_skip_len"
  then show "highlighted_text max_skip_len
          (map (Pair True) A @ map (Pair False) G @ map (Pair True) B)
        = [join_words (map fst (A @ G @ B))]"
    unfolding highlighted_text_def by (subst gap_bridged) auto
next
  assume "A \<noteq> [] \<and> B \<noteq> [] \<and> G \<noteq> [] \<and> max_skip_len < int (length G)"
  then show "highlighted_text max_skip_len
          (map (Pair True) A @ map (Pair False) G @ map (Pair True) B)
        = [join_words (map fst A), join_words (map fst B)]"
    unfolding highlighted_text_def by (subst gap_not_bridged) auto
qed

theorem run_merging_bounded_skip_witness:
  "highlighted_text 2
     (map (Pair True) [(''a'', (0, 0, 1, 1))]
      @ map (Pair False) [(''x'', (1, 0, 2, 1)), (''y'', (2, 0, 3, 1))]
      @ map (Pair True) [(''b'', (3, 0, 4, 1))])
     = [''a x y b'']
   \<and> highlighted_text 3
     (map (Pair True) [(''a'', (0, 0, 1, 1))]
      @ map (Pair False) [(''x'', (1, 0, 2, 1)), (''y'', (2, 0, 3, 1))]
      @ map (Pair True) [(''b'', (3, 0, 4, 1))])
     = [''a x y b'']
   \<and> highlighted_text 1
     (map (Pair True) [(''a'', (0, 0, 1, 1))]
      @ map (Pair False) [(''x'', (1, 0, 2, 1)), (''y'', (2, 0, 3, 1))]
      @ map (Pair True) [(''b'', (3, 0, 4, 1))])
     = [''a'', ''b'']"
  using run_merging_bounded_skip
          [of _ _ _ _ _ _ _ _ _ _ _ _ _ _ "[(''a'', (0, 0, 1, 1))]" "[(''b'', (3, 0, 4, 1))]"
              "[(''x'', (1, 0, 2, 1)), (''y'', (2, 0, 3, 1))]" 2]
        run_merging_bounded_skip
          [of _ _ _ _ _ _ _ _ _ _ _ _ _ _ "[(''a'', (0, 0, 1, 1))]" "[(''b'', (3, 0, 4, 1))]"
              "[(''x'', (1, 0, 2, 1)), (''y'', (2, 0, 3, 1))]" 3]
        run_merging_bounded_skip
          [of _ _ _ _ _ _ _ _ _ _ _ _ _ _ "[(''a'', (0, 0, 1, 1))]" "[(''b'', (3, 0, 4, 1))]"
              "[(''x'', (1, 0, 2, 1)), (''y'', (2, 0, 3, 1))]" 1]
  by simp

lemma trailing_gap:
  assumes "A \<noteq> []" "G \<noteq> []"
  shows "merge_tagged n (map (Pair True) A @ map (Pair False) G)
         = (if int (length G) \<le> n then [map fst (A @ G)] else [map fst A])"
  using assms runs_two [of A G True]
  by (simp add: merge_tagged_def marked_skips_def merged_runs_def)

lemma leading_gap:
  assumes "A \<noteq> []" "G \<noteq> []"
  shows "merge_tagged n (map (Pair False) G @ map (Pair True) A)
         = (if int (length G) \<le> n then [map fst (G @ A)] else [map fst A])"
  using assms runs_two [of G A False]
  by (simp add: merge_tagged_def marked_skips_def merged_runs_def)

lemma nothing_highlighted:
  assumes "G \<noteq> []"
  shows "merge_tagged n (map (Pair False) G)
         = (if int (length G) \<le> n then [map fst G] else [])"
  using assms runs_one [of G False]
  by (simp add: merge_tagged_def marked_skips_def merged_runs_def)

lemmas geometry_defs = locate_def locate_polygon_def locate_ring_def close_ring_def on_segment_def
  crosses_ray_def contains_point_def centroid_def box_def

text \<open>
  C2. The claim fails on the code: unhighlighted words after the last highlighted word,
  at most \<open>max_skip_len\<close> of them, are marked as selected like any short gap and are
  merged into the last run. Here the highlight covers the centroids of \<open>a\<close> and
  \<open>b\<close> only, and the run returned holds \<open>c\<close> and \<open>d\<close> too.
\<close>

theorem trailing_gap_is_merged:
  "extract_text_highlights E [box (0, 0, 20, 10)]
     \<lparr>number = 0, CropBox = (0, 0, 100, 100), contents = [],
      words = [(0, 2, 10, 8, ''a''), (10, 2, 20, 8, ''b''), (20, 2, 30, 8, ''c''),
               (30, 2, 40, 8, ''d'')]\<rparr>
     (Member CENTROID) 3
   = Inr [''a b c d'']"
  by (simp add: extract_text_highlights_def word_is_highlighted_def geometry_defs
        highlighted_text_def runs_def merge_tagged_def marked_skips_def merged_runs_def)

text \<open>
  C3. The claim fails on the code: on a page of at most \<open>max_skip_len\<close> words none of
  which is highlighted, the words form one short unhighlighted run, which is marked as
  selected and returned. Here the highlight covers no centroid and both words are
  returned as highlighted text.
\<close>

theorem unhighlighted_words_yield_run:
  "extract_text_highlights E [box (0, 20, 20, 30)]
     \<lparr>number = 0, CropBox = (0, 0, 100, 100), contents = [],
      words = [(0, 2, 10, 8, ''a''), (10, 2, 20, 8, ''b'')]\<rparr>
     (Member CENTROID) 3
   = Inr [''a b'']"
  by (simp add: extract_text_highlights_def word_is_highlighted_def geometry_defs
        highlighted_text_def runs_def merge_tagged_def marked_skips_def merged_runs_def)

section \<open>The interpreter reads yellow strokes only\<close>

lemma interp_loop_unarmed:
  assumes "\<forall>oper\<in>set ops. oper \<noteq> (''RG'', YELLOW)"
      and "current_line s = None \<or> current_line s = Some []"
  shows "interp_loop E s ops = Inr []"
  using assms
proof (induction ops arbitrary: s)
  case Nil
  then show ?case by simp
next
  case (Cons oper rest)
  then have "interp_step E s oper = Inr (s, [])"
    by (auto simp: interp_step_def)
  with Cons show ?case by simp
qed

lemma interp_step_other_RG:
  assumes "args \<noteq> YELLOW"
  shows "interp_step E s (''RG'', args) = Inr (s, [])"
  using assms
  by (auto simp: interp_step_def armed_step_def split: option.splits list.splits)

text \<open>
  C6. The operator \<open>RG\<close> arms the interpreter when its arguments are the list
  \<open>YELLOW\<close> of strings, and leaves the state as it is with any other arguments. An
  operator sequence in which no \<open>RG\<close> has the arguments \<open>YELLOW\<close> yields no
  shape (and raises nothing), whatever else it holds.
\<close>

theorem non_yellow_ignored:
  "interp_step E s (''RG'', YELLOW) = Inr (s\<lparr>current_line := Some [None]\<rparr>, [])
   \<and> (args \<noteq> YELLOW \<longrightarrow> interp_step E s (''RG'', args) = Inr (s, []))
   \<and> ((\<forall>oper\<in>set ops. fst oper = ''RG'' \<longrightarrow> snd oper \<noteq> YELLOW) \<longrightarrow>
        run_interpreter E ops = Inr [])"
proof (intro conjI impI)
  show "interp_step E s (''RG'', YELLOW) = Inr (s\<lparr>current_line := Some [None]\<rparr>, [])"
    by (simp add: interp_step_def)
next
  assume "args \<noteq> YELLOW"
  then show "interp_step E s (''RG'', args) = Inr (s, [])"
    by (rule interp_step_other_RG)
next
  assume "\<forall>oper\<in>set ops. fst oper = ''RG'' \<longrightarrow> snd oper \<noteq> YELLOW"
  then have "\<forall>oper\<in>set ops. oper \<noteq> (''RG'', YELLOW)" by auto
  then show "run_interpreter E ops = Inr []"
    unfolding run_interpreter_def
    by (rule interp_loop_unarmed) (simp add: initial_state_def)
qed

theorem non_yellow_ignored_witness:
  "\<forall>E. run_interpreter E
     (tokenize_graphics
        [''1'', ''0.952941'', ''0.658823'', ''RG'', ''10'', ''w'', ''1'', ''J'', ''1'', ''j'',
         ''0'', ''0'', ''m'', ''10'', ''0'', ''l'', ''S'']) = Inr []"
  using non_yellow_ignored
     [of _ _ _ "tokenize_graphics
        [''1'', ''0.952941'', ''0.658823'', ''RG'', ''10'', ''w'', ''1'', ''J'', ''1'', ''j'',
         ''0'', ''0'', ''m'', ''10'', ''0'', ''l'', ''S'']"]
  by (simp add: tokenize_graphics_def PATH_OPS_def YELLOW_def)

text \<open>The same stroke in the highlighter colour yields its buffered line.\<close>

lemma yellow_stroke:
  assumes "py_float E ''0'' = Some 0" "py_float E ''10'' = Some 10"
  shows "run_interpreter E
     (tokenize_graphics
        [''1'', ''0.952941'', ''0.658824'', ''RG'', ''10'', ''w'', ''1'', ''J'', ''1'', ''j'',
         ''0'', ''0'', ''m'', ''10'', ''0'', ''l'', ''S''])
     = Inr [buffer E [(0, 0), (10, 0)] 5 cap_round join_round]"
  using assms
  by (simp add: tokenize_graphics_def PATH_OPS_def YELLOW_def run_interpreter_def
        interp_step_def armed_step_def initial_state_def cleared_state_def stroke_def
        float_arg_def int_arg_def arg_def py_int_def unsigned_val_def digit_val_def
        CAP_STYLES_def JOIN_STYLES_def)

text \<open>
  C10. \<open>CAP_STYLES\<close> and \<open>JOIN_STYLES\<close> have the keys 1, 2 and 3 only. While a
  stroke is armed, \<open>J\<close> or \<open>j\<close> with an integer argument outside these keys
  raises KeyError, which ends the interpreter: the argument 0 after the yellow \<open>RG\<close>
  does so.
\<close>

theorem style_tables:
  "(CAP_STYLES i \<noteq> None) = (i \<in> {1, 2, 3})
   \<and> (JOIN_STYLES i \<noteq> None) = (i \<in> {1, 2, 3})
   \<and> (current_line s = Some (p # ps) \<and> py_int a = Inr i \<and> i \<notin> {1, 2, 3} \<longrightarrow>
        interp_step E s (''J'', a # rest) = Inl KeyError
        \<and> interp_step E s (''j'', a # rest) = Inl KeyError)
   \<and> (py_int a = Inr i \<and> i \<notin> {1, 2, 3} \<longrightarrow>
        run_interpreter E ((''RG'', YELLOW) # (''J'', a # rest) # ops) = Inl KeyError
        \<and> run_interpreter E ((''RG'', YELLOW) # (''j'', a # rest) # ops) = Inl KeyError)"
proof (intro conjI impI)
  show "(CAP_STYLES i \<noteq> None) = (i \<in> {1, 2, 3})" by (auto simp: CAP_STYLES_def)
  show "(JOIN_STYLES i \<noteq> None) = (i \<in> {1, 2, 3})" by (auto simp: JOIN_STYLES_def)
next
  assume h: "current_line s = Some (p # ps) \<and> py_int a = Inr i \<and> i \<notin> {1, 2, 3}"
  then show "interp_step E s (''J'', a # rest) = Inl KeyError"
    by (simp add: interp_step_def armed_step_def int_arg_def arg_def CAP_STYLES_def)
  from h show "interp_step E s (''j'', a # rest) = Inl KeyError"
    by (simp add: interp_step_def armed_step_def int_arg_def arg_def JOIN_STYLES_def)
next
  assume h: "py_int a = Inr i \<and> i \<notin> {1, 2, 3}"
  then show "run_interpreter E ((''RG'', YELLOW) # (''J'', a # rest) # ops) = Inl KeyError"
    by (simp add: run_interpreter_def interp_step_def armed_step_def int_arg_def arg_def
          CAP_STYLES_def)
  from h show "run_interpreter E ((''RG'', YELLOW) # (''j'', a # rest) # ops) = Inl KeyError"
    by (simp add: run_interpreter_def interp_step_def armed_step_def int_arg_def arg_def
          JOIN_STYLES_def)
qed

theorem style_tables_witness:
  "py_int ''0'' = Inr 0
   \<and> (\<forall>E. run_interpreter E
        (tokenize_graphics
          [''1'', ''0.952941'', ''0.658824'', ''RG'', ''0'', ''J'', ''1'', ''j'', ''10'', ''w'',
           ''0'', ''0'', ''m'', ''10'', ''0'', ''l'', ''S'']) = Inl KeyError)"
  using style_tables [of 0 _ _ _ "''0''" _ "[]"]
  by (simp add: tokenize_graphics_def PATH_OPS_def YELLOW_def
        py_int_def unsigned_val_def digit_val_def)

section \<open>Classifying a merged shape\<close>

lemma ring_area_box: "ring_area (exterior (box (x0, y0, x1, y1))) = \<bar>x1 - x0\<bar> * \<bar>y1 - y0\<bar>"
proof -
  have "shoelace [(x1, y0), (x1, y1), (x0, y1), (x0, y0), (x1, y0)]
        = 2 * ((x1 - x0) * (y1 - y0))"
    by (simp add: algebra_simps)
  then show ?thesis
    by (simp add: ring_area_def close_ring_def box_def abs_mult)
qed

text \<open>
  C5. A shape is classified \<open>SELECTION\<close> exactly when it has one interior ring and
  the area enclosed by that ring is greater than the threshold, and \<open>TEXTUAL\<close>
  otherwise: with no interior ring, with two or more, and with one whose area is at most
  the threshold. The classification is a function of the shape and the threshold, and of
  the interior rings of the shape only.
\<close>

theorem classifier_boundary:
  "(classify_highlight p t = SELECTION)
     = (length (interiors p) = 1 \<and> t < ring_area (hd (interiors p)))
   \<and> (classify_highlight p t = TEXTUAL)
     = (\<not> (length (interiors p) = 1 \<and> t < ring_area (hd (interiors p))))
   \<and> (interiors p = [] \<longrightarrow> classify_highlight p t = TEXTUAL)
   \<and> (2 \<le> length (interiors p) \<longrightarrow> classify_highlight p t = TEXTUAL)
   \<and> (interiors p = [hole] \<and> ring_area hole \<le> t \<longrightarrow> classify_highlight p t = TEXTUAL)
   \<and> (interiors p = [hole] \<and> t < ring_area hole \<longrightarrow> classify_highlight p t = SELECTION)
   \<and> classify_highlight (p\<lparr>exterior := ext\<rparr>) t = classify_highlight p t"
  by (cases "interiors p") (auto simp: classify_highlight_def)

theorem classifier_boundary_witness:
  "ring_area [(0, 0), (0, 1001), (1, 1001), (1, 0), (0, 0)] = 1001
   \<and> classify_highlight
       \<lparr>exterior = exterior (box (-10, -10, 20, 1100)),
        interiors = [[(0, 0), (0, 1001), (1, 1001), (1, 0), (0, 0)]]\<rparr> 1000 = SELECTION
   \<and> classify_highlight
       \<lparr>exterior = exterior (box (-10, -10, 20, 1100)),
        interiors = [[(0, 0), (0, 1001), (1, 1001), (1, 0), (0, 0)]]\<rparr> 1001 = TEXTUAL
   \<and> classify_highlight (box (-10, -10, 20, 1100)) 1000 = TEXTUAL
   \<and> classify_highlight
       \<lparr>exterior = exterior (box (-10, -10, 20, 1100)),
        interiors = [[(0, 0), (0, 1001), (1, 1001), (1, 0), (0, 0)],
                     [(5, 0), (5, 1001), (6, 1001), (6, 0), (5, 0)]]\<rparr> 1000 = TEXTUAL"
  using classifier_boundary
      [of "\<lparr>exterior = exterior (box (-10, -10, 20, 1100)),
        interiors = [[(0, 0), (0, 1001), (1, 1001), (1, 0), (0, 0)]]\<rparr>" 1000
        "[(0, 0), (0, 1001), (1, 1001), (1, 0), (0, 0)]"]
    classifier_boundary
      [of "\<lparr>exterior = exterior (box (-10, -10, 20, 1100)),
        interiors = [[(0, 0), (0, 1001), (1, 1001), (1, 0), (0, 0)]]\<rparr>" 1001
        "[(0, 0), (0, 1001), (1, 1001), (1, 0), (0, 0)]"]
    classifier_boundary [of "box (-10, -10, 20, 1100)" 1000]
    classifier_boundary
      [of "\<lparr>exterior = exterior (box (-10, -10, 20, 1100)),
        interiors = [[(0, 0), (0, 1001), (1, 1001), (1, 0), (0, 0)],
                     [(5, 0), (5, 1001), (6, 1001), (6, 0), (5, 0)]]\<rparr>" 1000]
  by (simp add: ring_area_def close_ring_def box_def)

section \<open>The centroid policy\<close>

lemma centroid_in_box: "centroid b \<in> box_points b"
  by (cases b) (auto simp: centroid_def box_points_def min_def max_def field_simps)

lemma outside_box:
  "p \<in> box_points (20, 4, 30, 6) \<Longrightarrow> locate p [box (0, 0, 10, 10)] = Exterior"
  by (cases p)
     (auto simp: box_points_def locate_def locate_polygon_def locate_ring_def
        close_ring_def on_segment_def crosses_ray_def box_def)

text \<open>
  C4, as the claim states it, fails: the word box from (8, 4) to (12, 6) has its centroid
  (10, 5) on the boundary of the highlight square from (0, 0) to (10, 10), and the word
  is not matched.
\<close>

theorem centroid_on_boundary_counterexample:
  "centroid (8, 4, 12, 6) = (10, 5)
   \<and> locate (10, 5) [box (0, 0, 10, 10)] = Boundary
   \<and> word_is_highlighted example_env (Member CENTROID) [box (0, 0, 10, 10)] (8, 4, 12, 6)
       = Inr False"
  by (simp add: word_is_highlighted_def geometry_defs)

text \<open>
  C4, amended. Under the centroid policy a word is matched exactly when the centroid of
  its box lies in the interior of the united textual highlights: a centroid strictly
  inside is matched, a centroid on the boundary is not, and a word whose box lies
  entirely outside is not.
\<close>

theorem centroid_policy:
  "word_is_highlighted E (Member CENTROID) highlight word_box
     = Inr (locate (centroid word_box) highlight = Interior)
   \<and> (locate (centroid word_box) highlight = Interior \<longrightarrow>
        word_is_highlighted E (Member CENTROID) highlight word_box = Inr True)
   \<and> (locate (centroid word_box) highlight = Boundary \<longrightarrow>
        word_is_highlighted E (Member CENTROID) highlight word_box = Inr False)
   \<and> ((\<forall>p\<in>box_points word_box. locate p highlight = Exterior) \<longrightarrow>
        word_is_highlighted E (Member CENTROID) highlight word_box = Inr False)"
proof (intro conjI impI)
  show "word_is_highlighted E (Member CENTROID) highlight word_box
     = Inr (locate (centroid word_box) highlight = Interior)"
    by (simp add: word_is_highlighted_def contains_point_def)
next
  assume "locate (centroid word_box) highlight = Interior"
  then show "word_is_highlighted E (Member CENTROID) highlight word_box = Inr True"
    by (simp add: word_is_highlighted_def contains_point_def)
next
  assume "locate (centroid word_box) highlight = Boundary"
  then show "word_is_highlighted E (Member CENTROID) highlight word_box = Inr False"
    by (simp add: word_is_highlighted_def contains_point_def)
next
  assume "\<forall>p\<in>box_points word_box. locate p highlight = Exterior"
  then have "locate (centroid word_box) highlight = Exterior"
    using centroid_in_box by blast
  then show "word_is_highlighted E (Member CENTROID) highlight word_box = Inr False"
    by (simp add: word_is_highlighted_def contains_point_def)
qed

theorem centroid_policy_witness:
  "locate (centroid (2, 4, 6, 6)) [box (0, 0, 10, 10)] = Interior
   \<and> word_is_highlighted example_env (Member CENTROID) [box (0, 0, 10, 10)] (2, 4, 6, 6)
       = Inr True
   \<and> locate (centroid (6, 9, 8, 11)) [box (0, 0, 10, 10)] = Boundary
   \<and> word_is_highlighted example_env (Member CENTROID) [box (0, 0, 10, 10)] (6, 9, 8, 11)
       = Inr False
   \<and> box_points (20, 4, 30, 6) \<subseteq> {p. locate p [box (0, 0, 10, 10)] = Exterior}
   \<and> word_is_highlighted example_env (Member CENTROID) [box (0, 0, 10, 10)] (20, 4, 30, 6)
       = Inr False"
proof -
  have out: "\<forall>p\<in>box_points (20, 4, 30, 6). locate p [box (0, 0, 10, 10)] = Exterior"
    using outside_box by blast
  have 1: "locate (centroid (2, 4, 6, 6)) [box (0, 0, 10, 10)] = Interior"
    by (simp add: geometry_defs)
  have 2: "locate (centroid (6, 9, 8, 11)) [box (0, 0, 10, 10)] = Boundary"
    by (simp add: geometry_defs)
  show ?thesis
    using centroid_policy [of example_env "[box (0, 0, 10, 10)]" "(2, 4, 6, 6)"]
      centroid_policy [of example_env "[box (0, 0, 10, 10)]" "(6, 9, 8, 11)"]
      centroid_policy [of example_env "[box (0, 0, 10, 10)]" "(20, 4, 30, 6)"]
      out 1 2
    by auto
qed

section \<open>Normalizing the coordinates of a shape\<close>

text \<open>
  C9, as the claim states it, fails: on a crop box from (0, 100) to (600, 900), of height
  800, the code maps y to 900 - y and not to 800 - y.
\<close>

theorem flip_by_crop_box_top_counterexample:
  "coordinate_transformer
     \<lparr>number = 0, CropBox = (0, 100, 600, 900), contents = [], words = []\<rparr>
     (box (10, 50, 20, 60))
   \<noteq> transform
       (\<lambda>(x, y). (x, page_height
          \<lparr>number = 0, CropBox = (0, 100, 600, 900), contents = [], words = []\<rparr> - y))
       (box (10, 50, 20, 60))"
  by (simp add: coordinate_transformer_def transform_def to_fitz_coord_def page_height_def
        box_def)

text \<open>
  C9, amended. The normalizer maps every point (x, y) of a shape, on the exterior ring
  and on the interior rings, to (x, t - y) where t is the last component of the crop box
  of the page, its top y coordinate; it is its own inverse, and
  \<open>extract_highlight_lines\<close> applies it to every shape it collects. On a shape with
  a point, t - y is the crop-box height minus y exactly when the bottom y coordinate of
  the crop box is 0.
\<close>

theorem flip_by_crop_box_top:
  "exterior (coordinate_transformer pg poly)
     = map (\<lambda>(x, y). (x, snd (snd (snd (CropBox pg))) - y)) (exterior poly)
   \<and> interiors (coordinate_transformer pg poly)
     = map (map (\<lambda>(x, y). (x, snd (snd (snd (CropBox pg))) - y))) (interiors poly)
   \<and> coordinate_transformer pg (coordinate_transformer pg poly) = poly
   \<and> extract_highlight_lines E pg
     = (case collect_lines E (contents pg) of
          Inl e \<Rightarrow> Inl e
        | Inr polys \<Rightarrow> Inr (map (coordinate_transformer pg) polys))
   \<and> (exterior poly \<noteq> [] \<longrightarrow>
        (coordinate_transformer pg poly
           = transform (\<lambda>(x, y). (x, page_height pg - y)) poly)
        = (fst (snd (CropBox pg)) = 0))"
proof -
  obtain x0 y0 x1 y1 where cb: "CropBox pg = (x0, y0, x1, y1)"
    by (cases "CropBox pg") auto
  have f: "to_fitz_coord pg = (\<lambda>(x, y). (x, y1 - y))"
    by (auto simp: to_fitz_coord_def cb fun_eq_iff)
  have inv: "(\<lambda>(x, y). (x, y1 - y)) \<circ> (\<lambda>(x, y). (x, y1 - y)) = (id :: point \<Rightarrow> point)"
    by (auto simp: fun_eq_iff)
  have h: "(coordinate_transformer pg poly
             = transform (\<lambda>(x, y). (x, page_height pg - y)) poly) = (y0 = 0)"
    if ne: "exterior poly \<noteq> []"
  proof
    assume eq: "coordinate_transformer pg poly
                = transform (\<lambda>(x, y). (x, page_height pg - y)) poly"
    from ne obtain q qs where q: "exterior poly = q # qs" by (cases "exterior poly") auto
    from eq have "exterior (coordinate_transformer pg poly)
                  = exterior (transform (\<lambda>(x, y). (x, page_height pg - y)) poly)"
      by simp
    then have "(\<lambda>(x, y). (x, y1 - y)) q = (\<lambda>(x, y). (x, page_height pg - y)) q"
      by (simp add: coordinate_transformer_def transform_def f q)
    then show "y0 = 0"
      by (cases q) (simp add: page_height_def cb)
  next
    assume "y0 = 0"
    then show "coordinate_transformer pg poly
               = transform (\<lambda>(x, y). (x, page_height pg - y)) poly"
      by (simp add: coordinate_transformer_def f page_height_def cb)
  qed
  show ?thesis
    using h
    by (simp add: coordinate_transformer_def transform_def f cb extract_highlight_lines_def inv)
qed

theorem flip_by_crop_box_top_witness:
  "coordinate_transformer yellow_page (box (0, 90, 20, 100))
     = transform (\<lambda>(x, y). (x, page_height yellow_page - y)) (box (0, 90, 20, 100))
   \<and> exterior (coordinate_transformer yellow_page (box (0, 90, 20, 100)))
     = [(20, 10), (20, 0), (0, 0), (0, 10), (20, 10)]"
  using flip_by_crop_box_top [where pg = yellow_page and poly = "box (0, 90, 20, 100)"]
  by (simp add: yellow_page_def box_def page_height_def transform_def)

section \<open>Where an unknown selection method is detected\<close>

lemmas example_defs = example_env_def ascii_split_def is_space_def integer_float_def
  flat_buffer_def disjoint_union_def yellow_page_def plain_page_def

lemmas interp_defs = tokenize_graphics_def PATH_OPS_def YELLOW_def run_interpreter_def
  interp_step_def armed_step_def initial_state_def cleared_state_def stroke_def
  float_arg_def int_arg_def arg_def py_int_def unsigned_val_def digit_val_def
  CAP_STYLES_def JOIN_STYLES_def highlighter_lines_def

lemma yellow_page_lines:
  "extract_highlight_lines example_env yellow_page
   = Inr [\<lparr>exterior = [(20, 10), (20, 0), (0, 0), (0, 10), (20, 10)], interiors = []\<rparr>]"
  by (simp add: extract_highlight_lines_def content_contains_highlight_def
      coordinate_transformer_def transform_def to_fitz_coord_def box_def
      example_defs interp_defs)

lemma plain_page_lines: "extract_highlight_lines example_env plain_page = Inr []"
  by (simp add: extract_highlight_lines_def content_contains_highlight_def
      example_defs interp_defs)

lemma yellow_page_textual: "has_textual_highlight example_env 1000 yellow_page"
  unfolding has_textual_highlight_def yellow_page_lines
  by (simp add: merge_highlight_lines_def normalize_polys_def example_env_def
        disjoint_union_def classify_highlight_def)

lemma plain_page_not_textual: "\<not> has_textual_highlight example_env 1000 plain_page"
  by (simp add: has_textual_highlight_def plain_page_lines)

text \<open>
  The whole pipeline on the page with the yellow stroke, with a valid method: the stroke
  covers the centroids of \<open>a\<close> and \<open>b\<close>.
\<close>

lemma yellow_page_text:
  "extract_highlights example_env [yellow_page] 3 ''CENTROID'' 1000 3
   = Inr ([1 \<mapsto> [''a b c d'']], Map.empty)"
  apply (simp add: extract_highlights_def process_page_def yellow_page_lines)
  apply (simp add: merge_highlight_lines_def normalize_polys_def example_env_def
      disjoint_union_def classify_highlight_def WordSelectionMethod_getitem_def extend_at_def
      extract_text_highlights_def word_is_highlighted_def geometry_defs yellow_page_def
      highlighted_text_def runs_def merge_tagged_def marked_skips_def merged_runs_def)
  done

lemma unknown_name:
  "(WordSelectionMethod_getitem name = Inl KeyError)
     = (name \<noteq> ''CENTROID'' \<and> name \<noteq> ''AREA_RATIO'')"
  by (simp add: WordSelectionMethod_getitem_def)

lemma process_page_textual:
  assumes "has_textual_highlight E t pg" "WordSelectionMethod_getitem name = Inl KeyError"
  shows "process_page E n name t z acc pg = Inl KeyError"
  using assms
  by (cases acc)
     (auto simp: process_page_def has_textual_highlight_def Let_def
           split: sum.splits prod.splits)

lemma process_page_not_textual:
  assumes "\<not> has_textual_highlight E t pg"
  shows "process_page E n name t z acc pg = process_page E n name' t z acc pg"
  using assms
  by (cases acc)
     (auto simp: process_page_def has_textual_highlight_def Let_def
           split: sum.splits prod.splits)

lemma process_pages_not_textual:
  assumes "\<forall>pg\<in>set doc. \<not> has_textual_highlight E t pg"
  shows "process_pages E n name t z acc doc = process_pages E n name' t z acc doc"
  using assms
proof (induction doc arbitrary: acc)
  case Nil
  then show ?case by simp
next
  case (Cons pg pgs)
  then have "process_page E n name t z acc pg = process_page E n name' t z acc pg"
    using process_page_not_textual by simp
  with Cons show ?case by (simp split: sum.splits)
qed

lemma process_pages_append:
  "process_pages E n name t z acc (pre @ post)
   = (case process_pages E n name t z acc pre of
        Inl e \<Rightarrow> Inl e
      | Inr acc' \<Rightarrow> process_pages E n name t z acc' post)"
  by (induction pre arbitrary: acc) (auto split: sum.splits)

text \<open>
  C8, as the claim states it, fails: on a document whose only page holds a stroke in
  another colour, \<open>extract_highlights\<close> with the unknown method name \<open>BOGUS\<close>
  returns two empty dictionaries and raises nothing.
\<close>

theorem unknown_method_counterexample:
  "WordSelectionMethod_getitem ''BOGUS'' = Inl KeyError
   \<and> extract_highlights example_env [plain_page] 3 ''BOGUS'' 1000 3
       = Inr (Map.empty, Map.empty)"
  by (simp add: extract_highlights_def process_page_def plain_page_lines
        WordSelectionMethod_getitem_def)

text \<open>
  C8, amended. A method name other than \<open>CENTROID\<close> and \<open>AREA_RATIO\<close> makes the
  lookup of the method raise KeyError, and \<open>extract_highlights\<close> looks the name up
  when it reaches a page with a textual highlight: the pages before it are processed
  first, and the call then ends with KeyError. On a document no page of which has a
  textual highlight the name is not looked up, and the result is the one for
  \<open>CENTROID\<close>.
\<close>

theorem unknown_method_raised_at_first_textual_page:
  "(WordSelectionMethod_getitem name = Inl KeyError)
     = (name \<noteq> ''CENTROID'' \<and> name \<noteq> ''AREA_RATIO'')
   \<and> (WordSelectionMethod_getitem name = Inl KeyError
        \<and> (\<forall>pg\<in>set pre. \<not> has_textual_highlight E t pg)
        \<and> extract_highlights E pre n name t z = Inr acc
        \<and> has_textual_highlight E t pg \<longrightarrow>
        extract_highlights E (pre @ pg # post) n name t z = Inl KeyError)
   \<and> ((\<forall>pg\<in>set doc. \<not> has_textual_highlight E t pg) \<longrightarrow>
        extract_highlights E doc n name t z = extract_highlights E doc n ''CENTROID'' t z)"
proof (intro conjI impI)
  show "(WordSelectionMethod_getitem name = Inl KeyError)
     = (name \<noteq> ''CENTROID'' \<and> name \<noteq> ''AREA_RATIO'')"
    by (rule unknown_name)
next
  assume h: "WordSelectionMethod_getitem name = Inl KeyError
        \<and> (\<forall>pg\<in>set pre. \<not> has_textual_highlight E t pg)
        \<and> extract_highlights E pre n name t z = Inr acc
        \<and> has_textual_highlight E t pg"
  then have pre: "process_pages E n name t z (Map.empty, Map.empty) pre = Inr acc"
    by (simp add: extract_highlights_def)
  from h have "process_page E n name t z acc pg = Inl KeyError"
    using process_page_textual by blast
  with pre show "extract_highlights E (pre @ pg # post) n name t z = Inl KeyError"
    by (simp add: extract_highlights_def process_pages_append)
next
  assume "\<forall>pg\<in>set doc. \<not> has_textual_highlight E t pg"
  then show "extract_highlights E doc n name t z = extract_highlights E doc n ''CENTROID'' t z"
    unfolding extract_highlights_def by (rule process_pages_not_textual)
qed

theorem unknown_method_raised_at_first_textual_page_witness:
  "WordSelectionMethod_getitem ''BOGUS'' = Inl KeyError
   \<and> \<not> has_textual_highlight example_env 1000 plain_page
   \<and> has_textual_highlight example_env 1000 yellow_page
   \<and> extract_highlights example_env [plain_page] 3 ''BOGUS'' 1000 3
       = Inr (Map.empty, Map.empty)
   \<and> extract_highlights example_env ([plain_page] @ yellow_page # []) 3 ''BOGUS'' 1000 3
       = Inl KeyError
   \<and> extract_highlights example_env [plain_page] 3 ''BOGUS'' 1000 3
       = extract_highlights example_env [plain_page] 3 ''CENTROID'' 1000 3"
proof -
  have 1: "extract_highlights example_env [plain_page] 3 ''BOGUS'' 1000 3
       = Inr (Map.empty, Map.empty)"
    by (simp add: extract_highlights_def process_page_def plain_page_lines)
  have 2: "WordSelectionMethod_getitem ''BOGUS'' = Inl KeyError"
    by (simp add: WordSelectionMethod_getitem_def)
  show ?thesis
    using unknown_method_raised_at_first_textual_page
            [where name = "''BOGUS''" and pre = "[plain_page]" and E = example_env
               and t = 1000 and n = 3 and z = 3 and acc = "(Map.empty, Map.empty)"
               and pg = yellow_page and post = "[]" and doc = "[plain_page]"]
          1 2 yellow_page_textual plain_page_not_textual
    by simp
qed

end
